theory Spec2Isabelle
  imports Main
begin

section \<open>Security providers of openapi-core\<close>

text \<open>
  The module \<^verbatim>\<open>openapi_core/security/providers.py\<close> extracts a raw credential from the
  parameters of a request, given the security scheme that the specification declares.
  Python strings are lists of characters, dictionaries and mappings are partial maps,
  and every exception that the code can raise is a value of the type \<open>error\<close>.
\<close>

subsection \<open>Exceptions and results\<close>

datatype error =
    SecurityError string
  | KeyError string
  | AttributeError string
  | NotImplementedError
  | UserWarning string
  | DetectionError string

text \<open>
  A provider returns \<^verbatim>\<open>Any\<close>: the credential string, or Python's \<^verbatim>\<open>None\<close>
  (here \<open>None\<close>) when the function body ends without a \<^verbatim>\<open>return\<close>.
\<close>

type_synonym outcome = "error + string option"

subsection \<open>The scheme and the request parameters\<close>

text \<open>
  The scheme is a \<^verbatim>\<open>Spec\<close>, read with \<^verbatim>\<open>self.scheme[key]\<close>: a mapping from
  keys to the declared strings. Reading an undeclared key raises \<^verbatim>\<open>KeyError\<close>.
\<close>

type_synonym Spec = "string \<rightharpoonup> string"

definition Spec_getitem :: "Spec \<Rightarrow> string \<Rightarrow> error + string" where
  "Spec_getitem spec key = (case spec key of None \<Rightarrow> Inl (KeyError key) | Some v \<Rightarrow> Inr v)"

text \<open>
  Modelled from the spec: the class \<^verbatim>\<open>RequestParameters\<close> of
  \<^verbatim>\<open>openapi_core.validation.request.datatypes\<close> is imported by the providers but its
  declaration is missing from the sources. The specification (section 6) lists the
  capabilities of a request as query parameters, header parameters, cookie parameters
  and path parameters; each is a mapping from a parameter name to the value read from
  the wire. A mapping \<open>m\<close> answers \<^verbatim>\<open>name in m\<close> by \<open>m name \<noteq> None\<close> and
  \<^verbatim>\<open>m[name]\<close> by the value stored there, whatever the concrete mapping class does
  with the letter case of its keys.
\<close>

record RequestParameters =
  query :: "string \<rightharpoonup> string"
  header :: "string \<rightharpoonup> string"
  cookie :: "string \<rightharpoonup> string"
  path :: "string \<rightharpoonup> string"

text \<open>
  \<^verbatim>\<open>getattr(parameters, location)\<close>: the attribute of that name, and
  \<^verbatim>\<open>AttributeError\<close> for a name that is not a field of the parameters.
\<close>

definition getattr :: "RequestParameters \<Rightarrow> string \<Rightarrow> error + (string \<rightharpoonup> string)" where
  "getattr parameters location =
     (if location = ''query'' then Inr (query parameters)
      else if location = ''header'' then Inr (header parameters)
      else if location = ''cookie'' then Inr (cookie parameters)
      else if location = ''path'' then Inr (path parameters)
      else Inl (AttributeError location))"

subsection \<open>String operations of the Python library\<close>

text \<open>
  \<^verbatim>\<open>str.lower()\<close> on the characters of the model, the code points below 256: the
  letters A to Z, and the accented capitals from code point 192 to 222 other than the
  multiplication sign 215, move up by 32; every other character stays.
\<close>

definition lower_char :: "char \<Rightarrow> char" where
  "lower_char c =
     (let n = (of_char c :: nat) in
      if (65 \<le> n \<and> n \<le> 90) \<or> (192 \<le> n \<and> n \<le> 214) \<or> (216 \<le> n \<and> n \<le> 222)
      then char_of (n + 32) else c)"

definition lower :: "string \<Rightarrow> string" where
  "lower s = map lower_char s"

text \<open>
  \<^verbatim>\<open>s.split(sep, 1)\<close> for a separator of one character scans \<open>s\<close> from the left
  and cuts it at the first occurrence of the separator, which is dropped. Without an
  occurrence the result is the one-element list \<open>[s]\<close>.
\<close>

fun cut_first :: "char \<Rightarrow> string \<Rightarrow> (string \<times> string) option" where
  "cut_first sep [] = None"
| "cut_first sep (c # cs) =
     (if c = sep then Some ([], cs)
      else (case cut_first sep cs of
              None \<Rightarrow> None
            | Some (before, after) \<Rightarrow> Some (c # before, after)))"

definition split_1 :: "char \<Rightarrow> string \<Rightarrow> string list" where
  "split_1 sep s = (case cut_first sep s of None \<Rightarrow> [s] | Some (before, after) \<Rightarrow> [before, after])"

subsection \<open>The providers\<close>

text \<open>
  \<^verbatim>\<open>ApiKeyProvider.__call__\<close>, as a function of the scheme and the parameters that
  it reads.
\<close>

definition ApiKeyProvider_call :: "Spec \<Rightarrow> RequestParameters \<Rightarrow> outcome" where
  "ApiKeyProvider_call scheme parameters =
     (case Spec_getitem scheme ''name'' of
        Inl e \<Rightarrow> Inl e
      | Inr name \<Rightarrow>
          (case Spec_getitem scheme ''in'' of
             Inl e \<Rightarrow> Inl e
           | Inr location \<Rightarrow>
               (case getattr parameters location of
                  Inl e \<Rightarrow> Inl e
                | Inr source \<Rightarrow>
                    (case source name of
                       None \<Rightarrow> Inl (SecurityError ''Missing api key parameter.'')
                     | Some v \<Rightarrow> Inr (Some v)))))"

text \<open>
  \<^verbatim>\<open>HttpProvider.__call__\<close>. Unpacking the result of \<^verbatim>\<open>split\<close> into two names
  raises \<^verbatim>\<open>ValueError\<close> unless the list has two elements, and the handler turns it
  into a \<^verbatim>\<open>SecurityError\<close>. The declared scheme name is read after the header has
  been parsed, and is compared as it is with the lower-cased token of the header.
\<close>

definition HttpProvider_call :: "Spec \<Rightarrow> RequestParameters \<Rightarrow> outcome" where
  "HttpProvider_call scheme parameters =
     (case header parameters ''Authorization'' of
        None \<Rightarrow> Inl (SecurityError ''Missing authorization header.'')
      | Some auth_header \<Rightarrow>
          (case split_1 CHR '' '' auth_header of
             [auth_type, encoded_credentials] \<Rightarrow>
               (case Spec_getitem scheme ''scheme'' of
                  Inl e \<Rightarrow> Inl e
                | Inr scheme_name \<Rightarrow>
                    if lower auth_type \<noteq> scheme_name
                    then Inl (SecurityError (''Unknown authorization method '' @ auth_type))
                    else Inr (Some encoded_credentials))
           | _ \<Rightarrow> Inl (SecurityError ''Could not parse authorization header.'')))"

subsection \<open>The warnings module of the Python library\<close>

text \<open>
  \<^verbatim>\<open>warnings.warn(text)\<close> is the standard library's, not the repository's; it is
  written out here after \<^verbatim>\<open>warn_explicit\<close> of \<^verbatim>\<open>Lib/warnings.py\<close>, since what
  the provider of an unsupported scheme does is what this call does. The category is
  \<^verbatim>\<open>UserWarning\<close>. The call consults the registry of the calling module (the keys
  that have been set there, a key being the text and the line of the call), then the
  warning filters. The filters are searched for the first one that matches the
  warning, and the default action applies when none does: \<open>filter_action\<close> is the
  action so found. The actions are those that \<^verbatim>\<open>simplefilter\<close> and
  \<^verbatim>\<open>filterwarnings\<close> accept. Reporting a warning (\<^verbatim>\<open>showwarning\<close>) adds it to the
  list \<open>shown\<close>.
\<close>

datatype action = Error | Ignore | Always | Default | Module | Once

record warnings_state =
  filter_action :: action
  registry :: "(string \<times> nat) set"
  onceregistry :: "string set"
  shown :: "string list"



subsection \<open>The methods on the objects they can reach\<close>

text \<open>
  A provider object holds the scheme in \<^verbatim>\<open>self.scheme\<close> and is called with the
  parameters; both are Python objects that a method could modify, and the state of the
  warnings module belongs to the process. A method is a program on these three: it
  returns a value or raises, and leaves them in a new state.
\<close>

record world =
  self_scheme :: Spec
  call_parameters :: RequestParameters
  warnings :: warnings_state


















text \<open>
  The scheme and the parameters are as they were: what a method that only reads them
  leaves behind.
\<close>

definition unchanged :: "world \<Rightarrow> world \<Rightarrow> bool" where
  "unchanged w w' = (self_scheme w' = self_scheme w \<and> call_parameters w' = call_parameters w)"



subsection \<open>The words of the specification about a header\<close>

text \<open>
  An \<^verbatim>\<open>Authorization\<close> header has the form \<^verbatim>\<open><scheme> <credentials>\<close>: the scheme
  token is what stands before the first space, the credentials are what follows it.
\<close>

definition token_before_first_space :: "string \<Rightarrow> string" where
  "token_before_first_space h = takeWhile (\<lambda>c. c \<noteq> CHR '' '') h"

definition portion_after_first_space :: "string \<Rightarrow> string" where
  "portion_after_first_space h = tl (dropWhile (\<lambda>c. c \<noteq> CHR '' '') h)"

text \<open>Two strings are equal ignoring letter case when their lower-case forms coincide.\<close>

definition equal_ignoring_case :: "string \<Rightarrow> string \<Rightarrow> bool" where
  "equal_ignoring_case a b = (lower a = lower b)"

text \<open>
  The entry of a name in a location of the parameters: the location's mapping read at the
  name, when the parameters have that location.
\<close>

definition entry :: "RequestParameters \<Rightarrow> string \<Rightarrow> string \<Rightarrow> error + string option" where
  "entry parameters location name =
     (case getattr parameters location of Inl e \<Rightarrow> Inl e | Inr source \<Rightarrow> Inr (source name))"

section \<open>Validator detection and dispatch\<close>

text \<open>
  The detection of the validator or unmarshaller for a specification and a message, and
  the shortcut functions that call it (\<^verbatim>\<open>validate_request\<close>,
  \<^verbatim>\<open>unmarshal_webhook_request\<close> and their siblings), are exercised by the unit tests
  in \<^verbatim>\<open>tests/unit/test_shortcuts.py\<close> and
  \<^verbatim>\<open>tests/unit/validation/test_shortcuts.py\<close>; their own code is not among the
  sources, so this section follows the specification. The unit tests run them on
  specifications of version 3.0 and of version 3.1, and on one in which no version is
  detected.
\<close>

datatype spec_version = OAS30 | OAS31

text \<open>
  Modelled from the spec: the capability interfaces of a message, which are missing from
  the sources. Section 4.6 asks of a message whether it behaves as an API-call Request,
  a Response, or a Webhook Request.
\<close>

datatype capability = Request | WebhookRequest | Response

text \<open>
  Modelled from the spec: the orchestrator variants, which are missing from the sources.
  Section 9 names a small closed set of variants, one for API-call requests, one for
  webhook requests and one for responses.
\<close>

datatype orchestrator = APICallRequestValidator | WebhookRequestValidator | ResponseValidator

text \<open>
  Modelled from the spec: the table of supported message kinds, which is missing from the
  sources. Section 4.6: webhook requests are unsupported before version 3.1.
\<close>

fun supports :: "spec_version \<Rightarrow> capability \<Rightarrow> bool" where
  "supports OAS30 WebhookRequest = False"
| "supports OAS30 Request = True"
| "supports OAS30 Response = True"
| "supports OAS31 k = True"

text \<open>
  Modelled from the spec: the choice of the variant for a message kind, which is missing
  from the sources.
\<close>

fun variant :: "capability \<Rightarrow> orchestrator" where
  "variant Request = APICallRequestValidator"
| "variant WebhookRequest = WebhookRequestValidator"
| "variant Response = ResponseValidator"

text \<open>
  Modelled from the spec: the detection function, which is missing from the sources.
  Section 4.6: given the specification's declared version and the message's runtime
  capability, select the concrete orchestrator variant; fail with a detection error
  when the specification version does not support the requested message kind or when
  the message satisfies none of the recognized capability interfaces. The declared
  version is \<open>None\<close> when no version is detected in the specification; the capability
  is \<open>None\<close> for an object that satisfies none of the interfaces.
\<close>

fun detect :: "spec_version option \<Rightarrow> capability option \<Rightarrow> error + orchestrator" where
  "detect version None =
     Inl (DetectionError ''message satisfies none of the recognized capability interfaces'')"
| "detect None (Some kind) =
     Inl (DetectionError ''specification version not detected'')"
| "detect (Some v) (Some kind) =
     (if supports v kind then Inr (variant kind)
      else Inl (DetectionError ''specification version does not support the message kind''))"

text \<open>
  Modelled from the spec: the shortcut functions, which are missing from the sources.
  Sections 4.5 and 7: a call detects the orchestrator first; a detection failure is
  fatal and short-circuits the whole call, and no result is returned. Otherwise the
  orchestrator runs (operation resolution, decoding, security) on a state of its own,
  here the parameter \<open>run\<close> on a state \<open>s\<close>, as the unit tests replace the
  orchestrator by a mock that records its calls.
\<close>

definition validate ::
    "spec_version option \<Rightarrow> capability option \<Rightarrow> (orchestrator \<Rightarrow> 's \<Rightarrow> (error + 'r) \<times> 's) \<Rightarrow> 's
     \<Rightarrow> (error + 'r) \<times> 's" where
  "validate version message run s =
     (case detect version message of
        Inl e \<Rightarrow> (Inl e, s)
      | Inr orch \<Rightarrow> run orch s)"

section \<open>Properties\<close>

subsection \<open>Cutting a string at the first separator\<close>

lemma cut_first_None: "cut_first sep s = None \<longleftrightarrow> sep \<notin> set s"
  by (induction s) (auto split: option.splits)

lemma cut_first_takeWhile:
  "sep \<in> set s \<Longrightarrow>
   cut_first sep s = Some (takeWhile (\<lambda>c. c \<noteq> sep) s, tl (dropWhile (\<lambda>c. c \<noteq> sep) s))"
  by (induction s) auto

lemma split_1_no_sep: "sep \<notin> set s \<Longrightarrow> split_1 sep s = [s]"
  by (simp add: split_1_def cut_first_None [THEN iffD2])

lemma split_1_space:
  "CHR '' '' \<in> set h \<Longrightarrow>
   split_1 CHR '' '' h = [token_before_first_space h, portion_after_first_space h]"
  by (simp add: split_1_def cut_first_takeWhile token_before_first_space_def
      portion_after_first_space_def)

lemma split_1_examples:
  "split_1 CHR '' '' ''Bearer xyz'' = [''Bearer'', ''xyz'']"
  "split_1 CHR '' '' ''a b c'' = [''a'', ''b c'']"
  "split_1 CHR '' '' ''abc'' = [''abc'']"
  "split_1 CHR '' '' [] = [[]]"
  "split_1 CHR '' '' '' x'' = [[], ''x'']"
  "split_1 CHR '' '' ''x '' = [''x'', []]"
  by (simp_all add: split_1_def)

lemma token_before_first_space_append:
  "CHR '' '' \<notin> set tok \<Longrightarrow> token_before_first_space (tok @ CHR '' '' # cred) = tok"
  by (induction tok) (auto simp: token_before_first_space_def)

lemma portion_after_first_space_append:
  "CHR '' '' \<notin> set tok \<Longrightarrow> portion_after_first_space (tok @ CHR '' '' # cred) = cred"
  by (induction tok) (auto simp: portion_after_first_space_def)

subsection \<open>The three ways through the HTTP provider\<close>

lemma HttpProvider_call_missing:
  "header parameters ''Authorization'' = None \<Longrightarrow>
   HttpProvider_call scheme parameters = Inl (SecurityError ''Missing authorization header.'')"
  by (simp add: HttpProvider_call_def)

lemma HttpProvider_call_no_space:
  "header parameters ''Authorization'' = Some h \<Longrightarrow> CHR '' '' \<notin> set h \<Longrightarrow>
   HttpProvider_call scheme parameters =
     Inl (SecurityError ''Could not parse authorization header.'')"
  by (simp add: HttpProvider_call_def split_1_no_sep)

lemma HttpProvider_call_parsed:
  "header parameters ''Authorization'' = Some h \<Longrightarrow> CHR '' '' \<in> set h \<Longrightarrow>
   scheme ''scheme'' = Some scheme_name \<Longrightarrow>
   HttpProvider_call scheme parameters =
     (if lower (token_before_first_space h) \<noteq> scheme_name
      then Inl (SecurityError (''Unknown authorization method '' @ token_before_first_space h))
      else Inr (Some (portion_after_first_space h)))"
  by (simp add: HttpProvider_call_def split_1_space Spec_getitem_def)

lemma HttpProvider_call_parsed_undeclared:
  "header parameters ''Authorization'' = Some h \<Longrightarrow> CHR '' '' \<in> set h \<Longrightarrow>
   scheme ''scheme'' = None \<Longrightarrow>
   HttpProvider_call scheme parameters = Inl (KeyError ''scheme'')"
  by (simp add: HttpProvider_call_def split_1_space Spec_getitem_def)

lemma lower_Bearer: "lower ''Bearer'' = ''bearer''"
  by code_simp

lemma lower_Basic: "lower ''Basic'' = ''basic''"
  by code_simp

lemma lower_char_idem: "lower_char (lower_char c) = lower_char c"
  by (auto simp: lower_char_def Let_def)

lemma lower_idem: "lower (lower s) = lower s"
  by (simp add: lower_def lower_char_idem)

lemma HttpProvider_call_header_form:
  assumes "scheme ''scheme'' = Some scheme_name"
    and "header parameters ''Authorization'' = Some (tok @ CHR '' '' # cred)"
    and "CHR '' '' \<notin> set tok"
  shows "HttpProvider_call scheme parameters =
     (if lower tok \<noteq> scheme_name
      then Inl (SecurityError (''Unknown authorization method '' @ tok))
      else Inr (Some cred))"
proof -
  have "CHR '' '' \<in> set (tok @ CHR '' '' # cred)" by simp
  moreover note token_before_first_space_append [OF assms(3), of cred]
    portion_after_first_space_append [OF assms(3), of cred]
  ultimately show ?thesis
    using assms(1,2) by (simp only: HttpProvider_call_parsed [where h = "tok @ CHR '' '' # cred"])
qed

lemma HttpProvider_call_lower_case_scheme:
  assumes "scheme ''scheme'' = Some scheme_name" and "lower scheme_name = scheme_name"
    and "header parameters ''Authorization'' = Some (tok @ CHR '' '' # cred)"
    and "CHR '' '' \<notin> set tok" and "equal_ignoring_case tok scheme_name"
  shows "HttpProvider_call scheme parameters = Inr (Some cred)"
  using assms
  by (simp add: HttpProvider_call_header_form [where tok = tok and cred = cred]
      equal_ignoring_case_def)

lemma HttpProvider_call_upper_case_scheme:
  assumes "scheme ''scheme'' = Some scheme_name" and "lower scheme_name \<noteq> scheme_name"
  shows "\<exists>e. HttpProvider_call scheme parameters = Inl e"
proof (cases "header parameters ''Authorization''")
  case None
  then show ?thesis by (simp add: HttpProvider_call_missing)
next
  case (Some h)
  show ?thesis
  proof (cases "CHR '' '' \<in> set h")
    case False
    with Some show ?thesis by (simp add: HttpProvider_call_no_space)
  next
    case True
    have "lower (token_before_first_space h) \<noteq> scheme_name"
      using assms(2) lower_idem by metis
    with Some True assms(1) show ?thesis
      by (simp add: HttpProvider_call_parsed [where h = h])
  qed
qed

subsection \<open>The API-key provider on a declared scheme\<close>

lemma getattr_declared:
  "getattr parameters ''query'' = Inr (query parameters)"
  "getattr parameters ''header'' = Inr (header parameters)"
  "getattr parameters ''cookie'' = Inr (cookie parameters)"
  by (simp_all add: getattr_def)

lemma ApiKeyProvider_call_source:
  "scheme ''name'' = Some name \<Longrightarrow> scheme ''in'' = Some location \<Longrightarrow>
   getattr parameters location = Inr source \<Longrightarrow>
   ApiKeyProvider_call scheme parameters =
     (case source name of
        None \<Rightarrow> Inl (SecurityError ''Missing api key parameter.'')
      | Some v \<Rightarrow> Inr (Some v))"
  by (simp add: ApiKeyProvider_call_def Spec_getitem_def)

lemma ApiKeyProvider_call_entry:
  "scheme ''name'' = Some name \<Longrightarrow> scheme ''in'' = Some location \<Longrightarrow>
   ApiKeyProvider_call scheme parameters =
     (case entry parameters location name of
        Inl e \<Rightarrow> Inl e
      | Inr None \<Rightarrow> Inl (SecurityError ''Missing api key parameter.'')
      | Inr (Some v) \<Rightarrow> Inr (Some v))"
  by (simp add: ApiKeyProvider_call_def Spec_getitem_def entry_def split: sum.splits)

subsection \<open>What the outcome of a provider depends on\<close>

lemma HttpProvider_call_depends:
  assumes "scheme ''scheme'' = scheme' ''scheme''"
    and "header parameters ''Authorization'' = header parameters' ''Authorization''"
  shows "HttpProvider_call scheme parameters = HttpProvider_call scheme' parameters'"
  using assms unfolding HttpProvider_call_def Spec_getitem_def
  by (simp split: option.split list.split)

lemma ApiKeyProvider_call_depends:
  assumes "scheme ''name'' = scheme' ''name''" and "scheme ''in'' = scheme' ''in''"
    and "\<And>name location. scheme ''name'' = Some name \<Longrightarrow> scheme ''in'' = Some location \<Longrightarrow>
           entry parameters location name = entry parameters' location name"
  shows "ApiKeyProvider_call scheme parameters = ApiKeyProvider_call scheme' parameters'"
proof (cases "scheme ''name''")
  case None
  with assms(1) show ?thesis by (simp add: ApiKeyProvider_call_def Spec_getitem_def)
next
  case name: (Some name)
  show ?thesis
  proof (cases "scheme ''in''")
    case None
    with name assms(1,2) show ?thesis by (simp add: ApiKeyProvider_call_def Spec_getitem_def)
  next
    case (Some location)
    from assms(3) [OF name Some] name Some assms(1,2) show ?thesis
      by (simp add: ApiKeyProvider_call_entry [where name = name and location = location])
  qed
qed

subsection \<open>Methods that only read\<close>

lemma unchanged_refl: "unchanged w w"
  by (simp add: unchanged_def)























subsection \<open>What the warnings module does with a warning\<close>










subsection \<open>The HTTP provider on a scheme declared in lower case\<close>

lemma HttpProvider_call_fails_iff_lower_case_scheme:
  assumes "scheme ''scheme'' = Some scheme_name" and "lower scheme_name = scheme_name"
  shows "((\<exists>message. HttpProvider_call scheme parameters = Inl (SecurityError message)) \<longleftrightarrow>
            (header parameters ''Authorization'' = None
             \<or> (\<exists>h. header parameters ''Authorization'' = Some h \<and> CHR '' '' \<notin> set h)
             \<or> (\<exists>h. header parameters ''Authorization'' = Some h \<and> CHR '' '' \<in> set h
                    \<and> \<not> equal_ignoring_case (token_before_first_space h) scheme_name)))
         \<and> ((\<nexists>message. HttpProvider_call scheme parameters = Inl (SecurityError message)) \<longrightarrow>
            (\<exists>h. header parameters ''Authorization'' = Some h
                 \<and> HttpProvider_call scheme parameters = Inr (Some (portion_after_first_space h))))"
proof (cases "header parameters ''Authorization''")
  case None
  then show ?thesis by (simp add: HttpProvider_call_missing)
next
  case (Some h)
  show ?thesis
  proof (cases "CHR '' '' \<in> set h")
    case False
    with Some show ?thesis by (simp add: HttpProvider_call_no_space)
  next
    case True
    have "equal_ignoring_case (token_before_first_space h) scheme_name
          \<longleftrightarrow> lower (token_before_first_space h) = scheme_name"
      using assms(2) by (auto simp: equal_ignoring_case_def lower_idem)
    with Some True assms(1) show ?thesis by (simp add: HttpProvider_call_parsed)
  qed
qed

section \<open>The claims\<close>

text \<open>
  Claim C1. The HTTP provider is to fail with \<^verbatim>\<open>SecurityError\<close> if and only if the
  \<^verbatim>\<open>Authorization\<close> header is missing, or has no space, or its scheme token does not
  match the declared scheme name. With the scheme declared as \<^verbatim>\<open>Bearer\<close> and the
  header \<^verbatim>\<open>Bearer xyz\<close>, the header is present, it has a space, and its token is the
  declared name, letter for letter and ignoring case; yet the code fails with
  \<^verbatim>\<open>SecurityError\<close>, because it lowers the token and not the declared name.
\<close>

theorem HttpProvider_call_matching_token_fails:
  "[''type'' \<mapsto> ''http'', ''scheme'' \<mapsto> ''Bearer''] ''scheme'' = Some ''Bearer''
   \<and> header \<lparr>query = Map.empty, header = [''Authorization'' \<mapsto> ''Bearer xyz''],
         cookie = Map.empty, path = Map.empty\<rparr> ''Authorization'' = Some ''Bearer xyz''
   \<and> CHR '' '' \<in> set ''Bearer xyz''
   \<and> token_before_first_space ''Bearer xyz'' = ''Bearer''
   \<and> equal_ignoring_case (token_before_first_space ''Bearer xyz'') ''Bearer''
   \<and> HttpProvider_call [''type'' \<mapsto> ''http'', ''scheme'' \<mapsto> ''Bearer'']
        \<lparr>query = Map.empty, header = [''Authorization'' \<mapsto> ''Bearer xyz''],
         cookie = Map.empty, path = Map.empty\<rparr>
       = Inl (SecurityError ''Unknown authorization method Bearer'')"
proof -
  have tok: "token_before_first_space ''Bearer xyz'' = ''Bearer''"
    by (simp add: token_before_first_space_def)
  have "HttpProvider_call [''type'' \<mapsto> ''http'', ''scheme'' \<mapsto> ''Bearer'']
        \<lparr>query = Map.empty, header = [''Authorization'' \<mapsto> ''Bearer xyz''],
         cookie = Map.empty, path = Map.empty\<rparr>
       = Inl (SecurityError (''Unknown authorization method '' @ ''Bearer''))"
    by (subst HttpProvider_call_parsed [where scheme_name = "''Bearer''" and h = "''Bearer xyz''"])
      (simp_all add: tok lower_Bearer)
  with tok show ?thesis by (simp add: equal_ignoring_case_def)
qed

text \<open>
  Claim C2. For an API-key scheme that declares a parameter name and one of the locations
  query, header and cookie, and for every request parameters object, the API-key
  provider fails with \<^verbatim>\<open>SecurityError\<close> exactly when the name is absent from the
  mapping of the declared location, and otherwise returns the value stored for the
  name, unchanged.
\<close>

theorem ApiKeyProvider_call_fails_iff_absent:
  assumes "scheme ''name'' = Some name" and "scheme ''in'' = Some location"
    and "(location, source) \<in> {(''query'', query parameters), (''header'', header parameters),
           (''cookie'', cookie parameters)}"
  shows "((\<exists>message. ApiKeyProvider_call scheme parameters = Inl (SecurityError message)) \<longleftrightarrow>
            source name = None)
         \<and> (\<forall>v. source name = Some v \<longrightarrow> ApiKeyProvider_call scheme parameters = Inr (Some v))"
proof -
  from assms(3) have "getattr parameters location = Inr source"
    by (auto simp: getattr_declared)
  from ApiKeyProvider_call_source [OF assms(1,2) this] show ?thesis
    by (cases "source name") simp_all
qed

theorem ApiKeyProvider_call_fails_iff_absent_witness:
  "[''type'' \<mapsto> ''apiKey'', ''name'' \<mapsto> ''api_key'', ''in'' \<mapsto> ''header''] ''name'' = Some ''api_key''
   \<and> [''type'' \<mapsto> ''apiKey'', ''name'' \<mapsto> ''api_key'', ''in'' \<mapsto> ''header''] ''in'' = Some ''header''
   \<and> [''api_key'' \<mapsto> ''abc123''] ''api_key'' = Some ''abc123''
   \<and> ApiKeyProvider_call [''type'' \<mapsto> ''apiKey'', ''name'' \<mapsto> ''api_key'', ''in'' \<mapsto> ''header'']
        \<lparr>query = Map.empty, header = [''api_key'' \<mapsto> ''abc123''], cookie = Map.empty,
         path = Map.empty\<rparr> = Inr (Some ''abc123'')
   \<and> (\<exists>message.
        ApiKeyProvider_call [''type'' \<mapsto> ''apiKey'', ''name'' \<mapsto> ''api_key'', ''in'' \<mapsto> ''header'']
          \<lparr>query = Map.empty, header = Map.empty, cookie = Map.empty, path = Map.empty\<rparr>
        = Inl (SecurityError message))"
  using ApiKeyProvider_call_fails_iff_absent
      [of "[''type'' \<mapsto> ''apiKey'', ''name'' \<mapsto> ''api_key'', ''in'' \<mapsto> ''header'']"
        "''api_key''" "''header''" "[''api_key'' \<mapsto> ''abc123'']"
        "\<lparr>query = Map.empty, header = [''api_key'' \<mapsto> ''abc123''], cookie = Map.empty,
         path = Map.empty\<rparr>"]
    ApiKeyProvider_call_fails_iff_absent
      [of "[''type'' \<mapsto> ''apiKey'', ''name'' \<mapsto> ''api_key'', ''in'' \<mapsto> ''header'']"
        "''api_key''" "''header''" "Map.empty"
        "\<lparr>query = Map.empty, header = Map.empty, cookie = Map.empty, path = Map.empty\<rparr>"]
  by simp

text \<open>
  Claim C3. Matching of the scheme token is meant to ignore letter case, but the code
  lowers the token of the header only and compares it with the declared scheme name as
  written. With the scheme declared as \<^verbatim>\<open>Bearer\<close>, the header
  \<^verbatim>\<open>Bearer xyz\<close>, whose token equals the declared name even letter for letter, is
  rejected with the scheme-mismatch \<^verbatim>\<open>SecurityError\<close> instead of returning
  \<^verbatim>\<open>xyz\<close>.
\<close>

theorem HttpProvider_call_declared_Bearer_rejected:
  "equal_ignoring_case ''Bearer'' ''Bearer''
   \<and> HttpProvider_call [''type'' \<mapsto> ''http'', ''scheme'' \<mapsto> ''Bearer'']
        \<lparr>query = Map.empty, header = [''Authorization'' \<mapsto> ''Bearer xyz''],
         cookie = Map.empty, path = Map.empty\<rparr> =
       Inl (SecurityError ''Unknown authorization method Bearer'')"
proof -
  have "HttpProvider_call [''type'' \<mapsto> ''http'', ''scheme'' \<mapsto> ''Bearer'']
        \<lparr>query = Map.empty, header = [''Authorization'' \<mapsto> ''Bearer'' @ CHR '' '' # ''xyz''],
         cookie = Map.empty, path = Map.empty\<rparr> =
       Inl (SecurityError (''Unknown authorization method '' @ ''Bearer''))"
    by (subst HttpProvider_call_header_form [where scheme_name = "''Bearer''" and tok = "''Bearer''" and cred = "''xyz''"])
      (simp_all add: lower_Bearer)
  then show ?thesis by (simp add: equal_ignoring_case_def)
qed

text \<open>
  Claim C4. For an HTTP-auth scheme declared as \<^verbatim>\<open>bearer\<close>, the header
  \<^verbatim>\<open>Bearer xyz\<close> yields the credential \<^verbatim>\<open>xyz\<close>, and the header
  \<^verbatim>\<open>Basic xyz\<close> fails with the \<^verbatim>\<open>SecurityError\<close> of a scheme mismatch.
\<close>

theorem HttpProvider_call_bearer_scenario:
  assumes "scheme ''scheme'' = Some ''bearer''"
  shows "(header parameters ''Authorization'' = Some ''Bearer xyz'' \<longrightarrow>
            HttpProvider_call scheme parameters = Inr (Some ''xyz''))
         \<and> (header parameters ''Authorization'' = Some ''Basic xyz'' \<longrightarrow>
            HttpProvider_call scheme parameters =
              Inl (SecurityError ''Unknown authorization method Basic''))"
proof -
  have tok: "token_before_first_space ''Bearer xyz'' = ''Bearer''"
    "token_before_first_space ''Basic xyz'' = ''Basic''"
    by (simp_all add: token_before_first_space_def)
  have rest: "portion_after_first_space ''Bearer xyz'' = ''xyz''"
    by (simp add: portion_after_first_space_def)
  show ?thesis
    using assms
    by (auto simp: HttpProvider_call_parsed [where scheme_name = "''bearer''"] tok rest
        lower_Bearer lower_Basic)
qed

theorem HttpProvider_call_bearer_scenario_witness:
  "[''type'' \<mapsto> ''http'', ''scheme'' \<mapsto> ''bearer''] ''scheme'' = Some ''bearer''
   \<and> HttpProvider_call [''type'' \<mapsto> ''http'', ''scheme'' \<mapsto> ''bearer'']
        \<lparr>query = Map.empty, header = [''Authorization'' \<mapsto> ''Bearer xyz''],
         cookie = Map.empty, path = Map.empty\<rparr> = Inr (Some ''xyz'')
   \<and> HttpProvider_call [''type'' \<mapsto> ''http'', ''scheme'' \<mapsto> ''bearer'']
        \<lparr>query = Map.empty, header = [''Authorization'' \<mapsto> ''Basic xyz''],
         cookie = Map.empty, path = Map.empty\<rparr> =
       Inl (SecurityError ''Unknown authorization method Basic'')"
  using HttpProvider_call_bearer_scenario
      [of "[''type'' \<mapsto> ''http'', ''scheme'' \<mapsto> ''bearer'']"
        "\<lparr>query = Map.empty, header = [''Authorization'' \<mapsto> ''Bearer xyz''],
         cookie = Map.empty, path = Map.empty\<rparr>"]
    HttpProvider_call_bearer_scenario
      [of "[''type'' \<mapsto> ''http'', ''scheme'' \<mapsto> ''bearer'']"
        "\<lparr>query = Map.empty, header = [''Authorization'' \<mapsto> ''Basic xyz''],
         cookie = Map.empty, path = Map.empty\<rparr>"]
  by simp




text \<open>
  Claim C6. For a message that behaves as a webhook request and a specification that
  declares version 3.0, detection fails with a detection error, and the call returns
  that error without running an orchestrator: no result is produced and the state of
  the orchestrator is untouched.
\<close>

theorem detect_webhook_oas30:
  "\<exists>reason. detect (Some OAS30) (Some WebhookRequest) = Inl (DetectionError reason)
     \<and> validate (Some OAS30) (Some WebhookRequest) run s = (Inl (DetectionError reason), s)"
  by (simp add: validate_def)

text \<open>
  Claim C7. For an object that satisfies none of the capability interfaces, whatever
  the declared version, detection fails with a detection error, and the call returns
  it before the orchestrator is run: the outcome does not depend on the orchestrator
  and its state is untouched.
\<close>

theorem detect_no_capability:
  "\<exists>reason. detect version None = Inl (DetectionError reason)
     \<and> validate version None run s = (Inl (DetectionError reason), s)"
  by (simp add: validate_def)




text \<open>
  Claim C9. The API-key provider decides by the presence of the key: when the declared
  name is present in the declared location with the empty string as its value, the
  provider returns the empty string and does not fail.
\<close>

theorem ApiKeyProvider_call_empty_value:
  assumes "scheme ''name'' = Some name" and "scheme ''in'' = Some location"
    and "(location, source) \<in> {(''query'', query parameters), (''header'', header parameters),
           (''cookie'', cookie parameters)}"
    and "source name = Some ''''"
  shows "ApiKeyProvider_call scheme parameters = Inr (Some '''')"
proof -
  from assms(3) have "getattr parameters location = Inr source"
    by (auto simp: getattr_declared)
  from ApiKeyProvider_call_source [OF assms(1,2) this] assms(4) show ?thesis
    by simp
qed

theorem ApiKeyProvider_call_empty_value_witness:
  "[''name'' \<mapsto> ''api_key'', ''in'' \<mapsto> ''query''] ''name'' = Some ''api_key''
   \<and> [''name'' \<mapsto> ''api_key'', ''in'' \<mapsto> ''query''] ''in'' = Some ''query''
   \<and> [''api_key'' \<mapsto> ''''] ''api_key'' = Some ''''
   \<and> ApiKeyProvider_call [''name'' \<mapsto> ''api_key'', ''in'' \<mapsto> ''query'']
        \<lparr>query = [''api_key'' \<mapsto> ''''], header = Map.empty, cookie = Map.empty,
         path = Map.empty\<rparr> = Inr (Some '''')"
  using ApiKeyProvider_call_empty_value
      [of "[''name'' \<mapsto> ''api_key'', ''in'' \<mapsto> ''query'']" "''api_key''" "''query''"
        "[''api_key'' \<mapsto> '''']"
        "\<lparr>query = [''api_key'' \<mapsto> ''''], header = Map.empty, cookie = Map.empty,
         path = Map.empty\<rparr>"]
  by simp

text \<open>
  Claim C10. The outcome of the HTTP provider is the same for any two schemes that agree
  on the declared scheme name and any two parameter objects that agree on the
  \<^verbatim>\<open>Authorization\<close> header; the outcome of the API-key provider is the same for any
  two schemes that agree on the declared name and location and any two parameter
  objects that agree on the entry of that name in that location. The HTTP provider
  cuts the header at the first space only: for a token without a space that matches the
  declared scheme name, the credentials are returned in full, spaces included.
\<close>

theorem providers_noninterference:
  "(scheme ''scheme'' = scheme' ''scheme''
      \<and> header parameters ''Authorization'' = header parameters' ''Authorization'' \<longrightarrow>
    HttpProvider_call scheme parameters = HttpProvider_call scheme' parameters')
   \<and> (scheme ''name'' = scheme' ''name'' \<and> scheme ''in'' = scheme' ''in''
      \<and> (\<forall>name location. scheme ''name'' = Some name \<and> scheme ''in'' = Some location \<longrightarrow>
            entry parameters location name = entry parameters' location name) \<longrightarrow>
    ApiKeyProvider_call scheme parameters = ApiKeyProvider_call scheme' parameters')
   \<and> (scheme ''scheme'' = Some (lower tok) \<and> CHR '' '' \<notin> set tok
      \<and> header parameters ''Authorization'' = Some (tok @ CHR '' '' # cred) \<longrightarrow>
    HttpProvider_call scheme parameters = Inr (Some cred))"
proof (intro conjI impI)
  assume agree: "scheme ''scheme'' = scheme' ''scheme''
      \<and> header parameters ''Authorization'' = header parameters' ''Authorization''"
  show "HttpProvider_call scheme parameters = HttpProvider_call scheme' parameters'"
    by (rule HttpProvider_call_depends) (simp_all add: agree)
next
  assume agree: "scheme ''name'' = scheme' ''name'' \<and> scheme ''in'' = scheme' ''in''
      \<and> (\<forall>name location. scheme ''name'' = Some name \<and> scheme ''in'' = Some location \<longrightarrow>
            entry parameters location name = entry parameters' location name)"
  show "ApiKeyProvider_call scheme parameters = ApiKeyProvider_call scheme' parameters'"
    by (rule ApiKeyProvider_call_depends) (simp_all add: agree)
next
  assume "scheme ''scheme'' = Some (lower tok) \<and> CHR '' '' \<notin> set tok
      \<and> header parameters ''Authorization'' = Some (tok @ CHR '' '' # cred)"
  then show "HttpProvider_call scheme parameters = Inr (Some cred)"
    by (simp add: HttpProvider_call_header_form [where tok = tok and cred = cred])
qed

theorem providers_noninterference_witness:
  "HttpProvider_call [''type'' \<mapsto> ''http'', ''scheme'' \<mapsto> ''bearer'']
      \<lparr>query = [''q'' \<mapsto> ''1''], header = [''Authorization'' \<mapsto> ''Bearer a b c''],
       cookie = Map.empty, path = Map.empty\<rparr>
   = HttpProvider_call [''scheme'' \<mapsto> ''bearer'']
      \<lparr>query = Map.empty, header = [''Accept'' \<mapsto> ''*'', ''Authorization'' \<mapsto> ''Bearer a b c''],
       cookie = [''session'' \<mapsto> ''s''], path = Map.empty\<rparr>
   \<and> ApiKeyProvider_call [''name'' \<mapsto> ''api_key'', ''in'' \<mapsto> ''header'']
      \<lparr>query = [''api_key'' \<mapsto> ''other''], header = [''api_key'' \<mapsto> ''abc123''],
       cookie = Map.empty, path = Map.empty\<rparr>
   = ApiKeyProvider_call [''type'' \<mapsto> ''apiKey'', ''name'' \<mapsto> ''api_key'', ''in'' \<mapsto> ''header'']
      \<lparr>query = Map.empty, header = [''Accept'' \<mapsto> ''*'', ''api_key'' \<mapsto> ''abc123''],
       cookie = [''api_key'' \<mapsto> ''third''], path = Map.empty\<rparr>
   \<and> HttpProvider_call [''type'' \<mapsto> ''http'', ''scheme'' \<mapsto> ''bearer'']
      \<lparr>query = [''q'' \<mapsto> ''1''], header = [''Authorization'' \<mapsto> ''Bearer a b c''],
       cookie = Map.empty, path = Map.empty\<rparr> = Inr (Some ''a b c'')"
proof -
  let ?h = "[''type'' \<mapsto> ''http'', ''scheme'' \<mapsto> ''bearer'']"
  let ?h' = "[''scheme'' \<mapsto> ''bearer'']"
  let ?p = "\<lparr>query = [''q'' \<mapsto> ''1''], header = [''Authorization'' \<mapsto> ''Bearer a b c''],
       cookie = Map.empty, path = Map.empty\<rparr>"
  let ?p' = "\<lparr>query = Map.empty, header = [''Accept'' \<mapsto> ''*'', ''Authorization'' \<mapsto> ''Bearer a b c''],
       cookie = [''session'' \<mapsto> ''s''], path = Map.empty\<rparr>"
  let ?k = "[''name'' \<mapsto> ''api_key'', ''in'' \<mapsto> ''header'']"
  let ?k' = "[''type'' \<mapsto> ''apiKey'', ''name'' \<mapsto> ''api_key'', ''in'' \<mapsto> ''header'']"
  let ?q = "\<lparr>query = [''api_key'' \<mapsto> ''other''], header = [''api_key'' \<mapsto> ''abc123''],
       cookie = Map.empty, path = Map.empty\<rparr>"
  let ?q' = "\<lparr>query = Map.empty, header = [''Accept'' \<mapsto> ''*'', ''api_key'' \<mapsto> ''abc123''],
       cookie = [''api_key'' \<mapsto> ''third''], path = Map.empty\<rparr>"
  have http_agree: "?h ''scheme'' = ?h' ''scheme''
      \<and> header ?p ''Authorization'' = header ?p' ''Authorization''"
    by simp
  have key_agree: "?k ''name'' = ?k' ''name'' \<and> ?k ''in'' = ?k' ''in''
      \<and> (\<forall>name location. ?k ''name'' = Some name \<and> ?k ''in'' = Some location \<longrightarrow>
            entry ?q location name = entry ?q' location name)"
    by (simp add: entry_def getattr_def)
  have form: "?h ''scheme'' = Some (lower ''Bearer'') \<and> CHR '' '' \<notin> set ''Bearer''
      \<and> header ?p ''Authorization'' = Some (''Bearer'' @ CHR '' '' # ''a b c'')"
    by (simp add: lower_Bearer)
  note http = providers_noninterference [of ?h ?h' ?p ?p' "''Bearer''" "''a b c''"]
  note key = providers_noninterference [of ?k ?k' ?q ?q']
  have same_http: "HttpProvider_call ?h ?p = HttpProvider_call ?h' ?p'"
    by (rule http [THEN conjunct1, THEN mp, OF http_agree])
  have same_key: "ApiKeyProvider_call ?k ?q = ApiKeyProvider_call ?k' ?q'"
    by (rule key [THEN conjunct2, THEN conjunct1, THEN mp, OF key_agree])
  have full: "HttpProvider_call ?h ?p = Inr (Some ''a b c'')"
    by (rule http [THEN conjunct2, THEN conjunct2, THEN mp, OF form])
  from same_http same_key full show ?thesis
    by (intro conjI)
qed

end
